theory Spec2Isabelle
  imports Main
begin

section \<open>JavaScript values and the platform functions the code calls\<close>

text \<open>
  Values that cross the library's interfaces (request bodies, sessions, the \<open>data\<close> object of an
  error, the value a schema returns) are JavaScript values. Numbers are restricted to integers and
  strings to \<open>string\<close>; \<open>JUndefined\<close> is the value of a field that was never assigned. The
  values are finite trees, which \<open>JSON.stringify\<close> serialises: an object with a cycle or a
  \<open>BigInt\<close>, on which it throws, is not among them.
\<close>

datatype jsval =
    JUndefined
  | JNull
  | JBool bool
  | JNum int
  | JStr string
  | JArr "jsval list"
  | JObj "(string \<times> jsval) list"

text \<open>Truthiness, as used by \<open>!session\<close>.\<close>

fun truthy :: "jsval \<Rightarrow> bool" where
  "truthy JUndefined = False"
| "truthy JNull = False"
| "truthy (JBool b) = b"
| "truthy (JNum n) = (n \<noteq> 0)"
| "truthy (JStr s) = (s \<noteq> [])"
| "truthy (JArr xs) = True"
| "truthy (JObj kvs) = True"

text \<open>\<open>Array.prototype.join\<close> on an array of strings.\<close>

fun join :: "string \<Rightarrow> string list \<Rightarrow> string" where
  "join sep [] = []"
| "join sep [x] = x"
| "join sep (x # y # ys) = x @ sep @ join sep (y # ys)"

text \<open>\<open>String(n)\<close> for a non-negative integer \<open>n\<close>: its decimal digits.\<close>

definition digit :: "nat \<Rightarrow> char" where
  "digit d = ''0123456789'' ! d"

fun String_of_nat :: "nat \<Rightarrow> string" where
  "String_of_nat n = (if n < 10 then [digit n] else String_of_nat (n div 10) @ [digit (n mod 10)])"

declare String_of_nat.simps [simp del]

definition String_of_int :: "int \<Rightarrow> string" where
  "String_of_int i = (if i < 0 then CHR ''-'' # String_of_nat (nat (- i)) else String_of_nat (nat i))"

text \<open>
  \<open>JSON.stringify\<close> on the values above. A string is quoted with the escapes of the JSON
  grammar; an \<open>undefined\<close> array element is written \<open>null\<close> and an \<open>undefined\<close> property is left
  out.
\<close>

definition hex_digit :: "nat \<Rightarrow> char" where
  "hex_digit d = ''0123456789abcdef'' ! d"

definition escape_char :: "char \<Rightarrow> string" where
  "escape_char c =
     (if c = CHR 0x22 then [CHR 0x5C, CHR 0x22]
      else if c = CHR 0x5C then [CHR 0x5C, CHR 0x5C]
      else if c = CHR 0x08 then [CHR 0x5C, CHR ''b'']
      else if c = CHR 0x0C then [CHR 0x5C, CHR ''f'']
      else if c = CHR 0x0A then [CHR 0x5C, CHR ''n'']
      else if c = CHR 0x0D then [CHR 0x5C, CHR ''r'']
      else if c = CHR 0x09 then [CHR 0x5C, CHR ''t'']
      else if of_char c < (0x20 :: nat)
        then [CHR 0x5C, CHR ''u'', CHR ''0'', CHR ''0'',
              hex_digit (of_char c div 16), hex_digit (of_char c mod 16)]
      else [c])"

definition quote :: "string \<Rightarrow> string" where
  "quote s = [CHR 0x22] @ concat (map escape_char s) @ [CHR 0x22]"

fun JSON_stringify :: "jsval \<Rightarrow> string"
  and stringify_elements :: "jsval list \<Rightarrow> string list"
  and stringify_properties :: "(string \<times> jsval) list \<Rightarrow> string list" where
  "JSON_stringify JUndefined = ''null''"
| "JSON_stringify JNull = ''null''"
| "JSON_stringify (JBool b) = (if b then ''true'' else ''false'')"
| "JSON_stringify (JNum n) = String_of_int n"
| "JSON_stringify (JStr s) = quote s"
| "JSON_stringify (JArr xs) = ''['' @ join '','' (stringify_elements xs) @ '']''"
| "JSON_stringify (JObj kvs) = ''{'' @ join '','' (stringify_properties kvs) @ ''}''"
| "stringify_elements [] = []"
| "stringify_elements (x # xs) = JSON_stringify x # stringify_elements xs"
| "stringify_properties [] = []"
| "stringify_properties ((k, v) # kvs) =
     (if v = JUndefined then stringify_properties kvs
      else (quote k @ '':'' @ JSON_stringify v) # stringify_properties kvs)"

section \<open>errors/ResponseError.ts\<close>

text \<open>
  \<open>FieldError = { field: string; message: string }\<close>. The \<open>message\<close> of a field error is
  \<open>fe_message\<close> here, the \<open>message\<close> of a \<open>ResponseError\<close> keeps its name.
\<close>

record FieldError =
  field :: string
  fe_message :: string

text \<open>
  The class \<open>ResponseError\<close>. \<open>name\<close> is the property that \<open>makeErrorClass\<close> defines; an
  \<open>internalError\<close> is kept by its message; \<open>data\<close> is \<open>JUndefined\<close> when it is not set.
\<close>

record ResponseError =
  name :: string
  message :: string
  responseCode :: int
  data :: jsval
  fieldErrors :: "FieldError list option"
  internalError :: "string option"

text \<open>
  What a callback, a stage or the platform may throw: a \<open>ResponseError\<close>, or anything else
  (kept by the message that \<open>String(e)\<close> or \<open>e.message\<close> gives). The \<open>RangeError\<close> of the
  platform is kept by its name.
\<close>

datatype exn = ThrowResponseError ResponseError | ThrowOther string

definition RangeError :: exn where
  "RangeError = ThrowOther ''RangeError''"

text \<open>
  A \<open>Response\<close> of the platform: its status and the JSON document of its body.
  \<open>Response.json(obj, { status })\<close> builds one from an object when the status is 101 or
  lies between 200 and 599, and throws a \<open>RangeError\<close> for any other status.
\<close>

record Response =
  status :: int
  body :: jsval

definition valid_status :: "int \<Rightarrow> bool" where
  "valid_status st = (st = 101 \<or> (200 \<le> st \<and> st \<le> 599))"

definition Response_json :: "(string \<times> jsval) list \<Rightarrow> int \<Rightarrow> exn + Response" where
  "Response_json obj st =
     (if valid_status st then Inr \<lparr>status = st, body = JObj obj\<rparr> else Inl RangeError)"

definition FieldError_value :: "FieldError \<Rightarrow> jsval" where
  "FieldError_value fe = JObj [(''field'', JStr (field fe)), (''message'', JStr (fe_message fe))]"

definition toResponse :: "ResponseError \<Rightarrow> exn + Response" where
  "toResponse e =
     Response_json
       ([(''message'', JStr (message e))]
        @ (if truthy (data e) then [(''data'', JStr (JSON_stringify (data e)))] else [])
        @ (case fieldErrors e of None \<Rightarrow> []
           | Some fes \<Rightarrow> [(''fields'', JStr (JSON_stringify (JArr (map FieldError_value fes))))]))
       (responseCode e)"

section \<open>errors/GenericErrors.ts\<close>

record ErrorDefaults =
  d_message :: string
  d_responseCode :: int
  d_data :: jsval

record ErrorOverrides =
  o_message :: "string option"
  o_responseCode :: "int option"
  o_data :: jsval
  o_fieldErrors :: "FieldError list option"
  o_internalError :: "string option"

text \<open>\<open>a ?? b\<close>, on an optional value and on a JavaScript value.\<close>

fun nullish :: "'a option \<Rightarrow> 'a \<Rightarrow> 'a" where
  "nullish None b = b"
| "nullish (Some a) b = a"

fun nullish_value :: "jsval \<Rightarrow> jsval \<Rightarrow> jsval" where
  "nullish_value JUndefined b = b"
| "nullish_value JNull b = b"
| "nullish_value a b = a"

definition no_overrides :: ErrorOverrides where
  "no_overrides = \<lparr>o_message = None, o_responseCode = None, o_data = JUndefined,
                    o_fieldErrors = None, o_internalError = None\<rparr>"

definition makeErrorClass :: "string \<Rightarrow> ErrorDefaults \<Rightarrow> ErrorOverrides \<Rightarrow> ResponseError" where
  "makeErrorClass nm defaults overrides =
     \<lparr>name = nm,
      message = nullish (o_message overrides) (d_message defaults),
      responseCode = nullish (o_responseCode overrides) (d_responseCode defaults),
      data = nullish_value (o_data overrides) (d_data defaults),
      fieldErrors = o_fieldErrors overrides,
      internalError = o_internalError overrides\<rparr>"

definition NotFoundError :: "ErrorOverrides \<Rightarrow> ResponseError" where
  "NotFoundError = makeErrorClass ''NotFoundError''
     \<lparr>d_message = ''Not Found'', d_responseCode = 404, d_data = JUndefined\<rparr>"

definition ConflictError :: "ErrorOverrides \<Rightarrow> ResponseError" where
  "ConflictError = makeErrorClass ''ConflictError''
     \<lparr>d_message = ''Conflict'', d_responseCode = 409, d_data = JUndefined\<rparr>"

definition InternalServerError :: "ErrorOverrides \<Rightarrow> ResponseError" where
  "InternalServerError = makeErrorClass ''InternalServerError''
     \<lparr>d_message = ''Internal Server Error'', d_responseCode = 500, d_data = JUndefined\<rparr>"

definition UnauthorizedError :: "ErrorOverrides \<Rightarrow> ResponseError" where
  "UnauthorizedError = makeErrorClass ''UnauthorizedError''
     \<lparr>d_message = ''Unauthorized'', d_responseCode = 401, d_data = JUndefined\<rparr>"


definition ValidationError :: "ErrorOverrides \<Rightarrow> ResponseError" where
  "ValidationError = makeErrorClass ''ValidationError''
     \<lparr>d_message = ''Bad Request'', d_responseCode = 400, d_data = JUndefined\<rparr>"

section \<open>validation.ts\<close>

text \<open>
  A path segment of an issue is a property key or an object \<open>{ key }\<close>. A numeric key is an
  array index.
\<close>

datatype PropertyKey = KString string | KNumber nat | KSymbol string

datatype PathItem = Key PropertyKey | PathSegment PropertyKey

record Issue =
  i_message :: "string option"
  i_path :: "PathItem list option"

text \<open>
  The result of \<open>validate\<close>, after a promise is awaited: \<open>issues\<close> (absent or an array) and
  \<open>value\<close> (\<open>JUndefined\<close> when absent).
\<close>

record ValidateResult =
  issues :: "Issue list option"
  r_value :: jsval

text \<open>
  The object under \<open>schema["~standard"]\<close>: \<open>version\<close> and \<open>validate\<close>, which is \<open>None\<close> when the
  property is not a function. A schema is that object, or nothing when the property is absent.
\<close>

record StandardProps =
  version :: int
  validate :: "(jsval \<Rightarrow> exn + ValidateResult) option"

type_synonym StandardSchema = "StandardProps option"

text \<open>\<open>String(key)\<close> for a property key.\<close>

fun String_of_key :: "PropertyKey \<Rightarrow> string" where
  "String_of_key (KString s) = s"
| "String_of_key (KNumber n) = String_of_nat n"
| "String_of_key (KSymbol d) = ''Symbol('' @ d @ '')''"

fun segment_key :: "PathItem \<Rightarrow> PropertyKey" where
  "segment_key (PathSegment k) = k"
| "segment_key (Key k) = k"

fun format_key :: "PropertyKey \<Rightarrow> string" where
  "format_key (KNumber n) = ''['' @ String_of_nat n @ '']''"
| "format_key k = String_of_key k"

definition formatPath :: "PathItem list option \<Rightarrow> string" where
  "formatPath p =
     (case p of
        None \<Rightarrow> ''''
      | Some segs \<Rightarrow>
          if length segs = 0 then ''''
          else join ''.'' (map (\<lambda>seg. format_key (segment_key seg)) segs))"

definition mapIssues :: "Issue list \<Rightarrow> FieldError list" where
  "mapIssues is =
     map (\<lambda>i. \<lparr>field = formatPath (i_path i), fe_message = nullish (i_message i) ''Invalid''\<rparr>) is"

definition parseStandardSchema :: "jsval \<Rightarrow> StandardSchema \<Rightarrow> exn + jsval" where
  "parseStandardSchema input schema =
     (case schema of
        None \<Rightarrow>
          Inl (ThrowResponseError (ValidationError
            (no_overrides\<lparr>o_message := Some ''Schema does not implement StandardSchemaV1''\<rparr>)))
      | Some props \<Rightarrow>
          if version props \<noteq> 1 then
            Inl (ThrowResponseError (ValidationError
              (no_overrides\<lparr>o_message := Some ''Schema does not implement StandardSchemaV1''\<rparr>)))
          else
            (case validate props of
               None \<Rightarrow>
                 Inl (ThrowResponseError (ValidationError
                   (no_overrides\<lparr>o_message := Some ''Schema does not implement StandardSchemaV1''\<rparr>)))
             | Some validate_fn \<Rightarrow>
                 (case validate_fn input of
                    Inl e \<Rightarrow> Inl e
                  | Inr resolved \<Rightarrow>
                      (case issues resolved of
                         Some is \<Rightarrow>
                           Inl (ThrowResponseError (ValidationError
                             (no_overrides\<lparr>o_fieldErrors := Some (mapIssues is)\<rparr>)))
                       | None \<Rightarrow> Inr (r_value resolved)))))"

fun is_hex :: "char \<Rightarrow> bool" where
  "is_hex c = (c \<in> set ''0123456789abcdefABCDEF'')"

text \<open>
  The regular expression of \<open>validateUUID\<close>, one character class per position; \<open>^\<close> and \<open>$\<close>
  (without the multiline flag) make it match the whole string.
\<close>

definition uuid_pattern :: "(char \<Rightarrow> bool) list" where
  "uuid_pattern =
     replicate 8 is_hex @ [\<lambda>c. c = CHR ''-'']
     @ replicate 4 is_hex @ [\<lambda>c. c = CHR ''-'']
     @ [\<lambda>c. c \<in> set ''12345''] @ replicate 3 is_hex @ [\<lambda>c. c = CHR ''-'']
     @ [\<lambda>c. c \<in> set ''89abAB''] @ replicate 3 is_hex @ [\<lambda>c. c = CHR ''-'']
     @ replicate 12 is_hex"

definition validateUUID :: "string \<Rightarrow> bool" where
  "validateUUID uuid = list_all2 (\<lambda>p c. p c) uuid_pattern uuid"

section \<open>controller.ts\<close>

type_synonym Headers = "(string \<times> string) list"

text \<open>
  The request, as far as the controller reads it: \<open>request.params\<close> (absent, or a map from
  names to strings), \<open>request.headers\<close>, \<open>request.url\<close>, and what \<open>await request.json()\<close> gives
  (\<open>None\<close> when it rejects). The map of the parameters holds the own properties whose value
  is a string. A name that the object inherits and does not own reads, in the code, as an
  object or a function: that passes the test \<open>!raw\<close> and fails \<open>validateUUID\<close>, with the
  same \<open>NotFoundError\<close> as for a name that reads as \<open>undefined\<close>, which is how it reads here.
\<close>

record BunRequest =
  url :: string
  headers :: Headers
  req_params :: "(string \<rightharpoonup> string) option"
  req_json :: "jsval option"

record HandlerContext =
  ctx_session :: jsval

record AuthProvider =
  getSession :: "Headers \<Rightarrow> exn + jsval"

text \<open>
  \<open>RouteControllerProps\<close> are the read-only fields of \<open>BaseController\<close>; the class adds
  \<open>json\<close>, \<open>session\<close>, \<open>params\<close> and \<open>responseError\<close>, which the stages assign. A field
  not assigned yet is \<open>JUndefined\<close>, \<open>None\<close>, or the empty map for \<open>params\<close> (which
  \<open>_validateUUIDs\<close> assigns on every path before anything reads it). The private methods
  \<open>_validateUUIDs\<close>, \<open>_checkAuthStatus\<close>, \<open>_validateJSONInput\<close> and \<open>_additionalValidation\<close>
  are \<open>private_validateUUIDs\<close> and so on.
\<close>

record RouteControllerProps =
  request :: BunRequest
  ctx :: HandlerContext
  requiresAuthentication :: bool
  inputSchema :: "StandardSchema option"
  validateUUIDs :: "string list option"
  authProvider :: "AuthProvider option"

record BaseController = RouteControllerProps +
  json :: jsval
  session :: jsval
  params :: "string \<rightharpoonup> string"
  responseError :: "ResponseError option"

text \<open>
  The two methods a concrete controller supplies. \<open>run\<close> may assign the controller's fields
  (through \<open>failWith\<close>, for one), so it returns the controller with its result.
\<close>

record ControllerMethods =
  run :: "BaseController \<Rightarrow> (exn + Response) \<times> BaseController"
  additionalValidation :: "jsval \<Rightarrow> exn + FieldError list option"

definition BaseController_new :: "RouteControllerProps \<Rightarrow> BaseController" where
  "BaseController_new args =
     \<lparr>request = request args, ctx = ctx args,
      requiresAuthentication = requiresAuthentication args,
      inputSchema = inputSchema args, validateUUIDs = validateUUIDs args,
      authProvider = authProvider args,
      json = JUndefined, session = JUndefined, params = Map.empty, responseError = None\<rparr>"


text \<open>
  \<open>obj[key] = raw\<close> on the plain object \<open>validatedParams\<close>, for a string \<open>raw\<close>: an own
  property under \<open>key\<close>, except under the key \<open>__proto__\<close>, where the setter that
  \<open>Object.prototype\<close> has under that name is called and ignores a string, so that nothing
  is stored.
\<close>

definition assign_property ::
  "(string \<rightharpoonup> string) \<Rightarrow> string \<Rightarrow> string \<Rightarrow> (string \<rightharpoonup> string)" where
  "assign_property obj key raw = (if key = ''__proto__'' then obj else obj(key \<mapsto> raw))"

text \<open>
  The loop of \<open>_validateUUIDs\<close> over the declared keys: \<open>None\<close> at the first key whose
  parameter is missing, empty or not a UUID, the validated parameters otherwise.
\<close>

fun validate_keys ::
  "(string \<rightharpoonup> string) \<Rightarrow> string list \<Rightarrow> (string \<rightharpoonup> string) \<Rightarrow> (string \<rightharpoonup> string) option" where
  "validate_keys ps [] validatedParams = Some validatedParams"
| "validate_keys ps (key # keys) validatedParams =
     (case ps key of
        None \<Rightarrow> None
      | Some raw \<Rightarrow>
          if raw = [] then None
          else if \<not> validateUUID raw then None
          else validate_keys ps keys (assign_property validatedParams key raw))"

definition private_validateUUIDs :: "BaseController \<Rightarrow> BaseController" where
  "private_validateUUIDs this =
     (case validateUUIDs this of
        None \<Rightarrow> this\<lparr>params := Map.empty\<rparr>
      | Some keys \<Rightarrow>
          (case req_params (request this) of
             None \<Rightarrow> this\<lparr>params := Map.empty\<rparr>
           | Some ps \<Rightarrow>
               (case validate_keys ps keys Map.empty of
                  None \<Rightarrow>
                    this\<lparr>responseError := Some (NotFoundError no_overrides), params := Map.empty\<rparr>
                | Some validatedParams \<Rightarrow> this\<lparr>params := validatedParams\<rparr>)))"

definition private_checkAuthStatus :: "BaseController \<Rightarrow> exn + BaseController" where
  "private_checkAuthStatus this =
     (case authProvider this of
        None \<Rightarrow>
          if requiresAuthentication this then
            Inr (this\<lparr>responseError := Some (UnauthorizedError
              (no_overrides\<lparr>o_message := Some ''Authentication provider not configured''\<rparr>))\<rparr>)
          else Inr this
      | Some provider \<Rightarrow>
          (case getSession provider (headers (request this)) of
             Inl e \<Rightarrow> Inl e
           | Inr sess \<Rightarrow>
               if requiresAuthentication this \<and> \<not> truthy sess then
                 Inr (this\<lparr>responseError := Some (UnauthorizedError
                   (no_overrides\<lparr>o_message := Some ''You must be logged in to view this content''\<rparr>))\<rparr>)
               else Inr (this\<lparr>ctx := \<lparr>ctx_session = sess\<rparr>, session := sess\<rparr>)))"

definition private_validateJSONInput :: "BaseController \<Rightarrow> BaseController" where
  "private_validateJSONInput this =
     (case inputSchema this of
        None \<Rightarrow> this
      | Some schema \<Rightarrow>
          (case responseError this of
             Some pending \<Rightarrow> this
           | None \<Rightarrow>
               (case req_json (request this) of
                  None \<Rightarrow>
                    this\<lparr>responseError := Some (ValidationError
                      (no_overrides\<lparr>o_message := Some ''Invalid JSON body provided''\<rparr>))\<rparr>
                | Some jsonUnsafe \<Rightarrow>
                    (case parseStandardSchema jsonUnsafe schema of
                       Inr out \<Rightarrow> this\<lparr>json := out\<rparr>
                     | Inl (ThrowResponseError err) \<Rightarrow> this\<lparr>responseError := Some err\<rparr>
                     | Inl (ThrowOther cause) \<Rightarrow>
                         this\<lparr>responseError := Some (ValidationError
                           (no_overrides\<lparr>o_message := Some ''Invalid input''\<rparr>))\<rparr>))))"

definition private_additionalValidation ::
  "ControllerMethods \<Rightarrow> BaseController \<Rightarrow> exn + BaseController" where
  "private_additionalValidation m this =
     (if json this = JUndefined then Inr this
      else
        let baseFieldErrors =
              (case responseError this of
                 None \<Rightarrow> []
               | Some pending \<Rightarrow> nullish (fieldErrors pending) [])
        in
        (case additionalValidation m (json this) of
           Inl e \<Rightarrow> Inl e
         | Inr additionalErrors \<Rightarrow>
             let fes =
                   (case additionalErrors of
                      None \<Rightarrow> baseFieldErrors
                    | Some errs \<Rightarrow>
                        if length errs > 0 then baseFieldErrors @ errs else baseFieldErrors)
             in
             if length fes > 0 then
               Inr (this\<lparr>responseError :=
                      Some ((nullish (responseError this) (ValidationError no_overrides))
                              \<lparr>fieldErrors := Some fes\<rparr>)\<rparr>)
             else Inr this))"

definition init :: "ControllerMethods \<Rightarrow> BaseController \<Rightarrow> exn + BaseController" where
  "init m this =
     (case private_checkAuthStatus (private_validateUUIDs this) of
        Inl e \<Rightarrow> Inl e
      | Inr this2 \<Rightarrow> private_additionalValidation m (private_validateJSONInput this2))"

definition respond :: "ControllerMethods \<Rightarrow> BaseController \<Rightarrow> exn + Response" where
  "respond m this =
     (case responseError this of
        Some pending \<Rightarrow> toResponse pending
      | None \<Rightarrow>
          (case run m this of
             (Inl e, this') \<Rightarrow> Inl e
           | (Inr resp, this') \<Rightarrow>
               (case responseError this' of
                  Some pending \<Rightarrow> toResponse pending
                | None \<Rightarrow> Inr resp)))"

definition invoke :: "ControllerMethods \<Rightarrow> BaseController \<Rightarrow> exn + Response" where
  "invoke m this =
     (case init m this of
        Inl e \<Rightarrow> Inl e
      | Inr this' \<Rightarrow> respond m this')"

text \<open>
  \<open>createController\<close>: the class it returns is its constructor (from the request and the
  context to the controller) and its two methods.
\<close>

record ControllerConfig =
  validationSchema :: "StandardSchema option"
  c_validateUUIDs :: "string list option"
  c_requiresAuthentication :: bool
  c_authProvider :: "AuthProvider option"

record ControllerClass =
  construct :: "BunRequest \<Rightarrow> HandlerContext \<Rightarrow> BaseController"
  methods :: ControllerMethods

definition createController ::
  "(BaseController \<Rightarrow> (exn + Response) \<times> BaseController) \<Rightarrow> ControllerConfig \<Rightarrow>
   (jsval \<Rightarrow> exn + FieldError list option) option \<Rightarrow> ControllerClass" where
  "createController handler config additionalValidator =
     \<lparr>construct = (\<lambda>req context. BaseController_new
        \<lparr>request = req, ctx = context,
         requiresAuthentication = c_requiresAuthentication config,
         inputSchema = validationSchema config,
         validateUUIDs = c_validateUUIDs config,
         authProvider = c_authProvider config\<rparr>),
      methods =
        \<lparr>run = (\<lambda>this. handler this),
         additionalValidation = (\<lambda>validated.
           case additionalValidator of
             None \<Rightarrow> Inr (Some [])
           | Some f \<Rightarrow>
               (case f validated of
                  Inl e \<Rightarrow> Inl e
                | Inr r \<Rightarrow> Inr (Some (nullish r []))))\<rparr>\<rparr>"

section \<open>router.ts\<close>

datatype Method = Get | Post | Patch | Put | Delete | Head | Options

text \<open>\<open>d.method.toUpperCase()\<close> on the seven method names.\<close>

fun Method_toUpperCase :: "Method \<Rightarrow> string" where
  "Method_toUpperCase Get = ''GET''"
| "Method_toUpperCase Post = ''POST''"
| "Method_toUpperCase Patch = ''PATCH''"
| "Method_toUpperCase Put = ''PUT''"
| "Method_toUpperCase Delete = ''DELETE''"
| "Method_toUpperCase Head = ''HEAD''"
| "Method_toUpperCase Options = ''OPTIONS''"

fun Method_name :: "Method \<Rightarrow> string" where
  "Method_name Get = ''get''"
| "Method_name Post = ''post''"
| "Method_name Patch = ''patch''"
| "Method_name Put = ''put''"
| "Method_name Delete = ''delete''"
| "Method_name Head = ''head''"
| "Method_name Options = ''options''"

text \<open>
  \<open>Discovered = { path, handler, method }\<close>. The field \<open>handler\<close> is \<open>handler_file\<close> here
  and \<open>method\<close> is \<open>http_method\<close>, the plain names being taken.
\<close>

record Discovered =
  path :: string
  handler_file :: string
  http_method :: Method

text \<open>
  What the logger is given: the message and the fields of \<open>meta\<close> (\<open>stack\<close> left out). The
  logger of the configuration is its function \<open>error\<close>, which returns (\<open>None\<close>) or throws.
\<close>

record LogEntry =
  log_message :: string
  log_internalError :: string
  log_url :: string
  log_method :: "string option"
  log_path :: string

type_synonym Logger = "LogEntry \<Rightarrow> exn option"

text \<open>
  The closure \<open>handler\<close> that \<open>parseRoutes\<close> builds for one discovered file, with the variables
  it captures: the router's \<open>authProvider\<close> and \<open>logger\<close>, the class \<open>Ctor\<close>, \<open>key\<close> and
  \<open>method\<close>. It returns the response, or what its \<open>catch\<close> block throws when the logger or
  \<open>toResponse\<close> throws there, and the entries it gave to the logger.
\<close>

record BoundHandler =
  h_authProvider :: "AuthProvider option"
  h_logger :: "Logger option"
  h_Ctor :: ControllerClass
  h_key :: string
  h_method :: string

text \<open>The \<open>try\<close> block of the handler.\<close>

definition handler_try :: "BoundHandler \<Rightarrow> BunRequest \<Rightarrow> exn + Response" where
  "handler_try h req =
     (case (case h_authProvider h of
              None \<Rightarrow> Inr JUndefined
            | Some provider \<Rightarrow> getSession provider (headers req)) of
        Inl e \<Rightarrow> Inl e
      | Inr sess \<Rightarrow>
          invoke (methods (h_Ctor h)) (construct (h_Ctor h) req \<lparr>ctx_session = sess\<rparr>))"

text \<open>
  \<open>if (logger) logger.error(...)\<close> followed by a \<open>return\<close>: with a logger, the entry is given
  to it, and what it throws leaves the handler; otherwise the \<open>return\<close> is reached.
\<close>

definition log_then_return ::
  "Logger option \<Rightarrow> LogEntry \<Rightarrow> exn + Response \<Rightarrow> (exn + Response) \<times> LogEntry list" where
  "log_then_return logger entry returned =
     (case logger of
        None \<Rightarrow> (returned, [])
      | Some logger_error \<Rightarrow>
          (case logger_error entry of
             Some thrown \<Rightarrow> (Inl thrown, [entry])
           | None \<Rightarrow> (returned, [entry])))"

definition handler ::
  "BoundHandler \<Rightarrow> BunRequest \<Rightarrow> (exn + Response) \<times> LogEntry list" where
  "handler h req =
     (case handler_try h req of
        Inr resp \<Rightarrow> (Inr resp, [])
      | Inl (ThrowResponseError e) \<Rightarrow>
          (case internalError e of
             None \<Rightarrow> (toResponse e, [])
           | Some cause \<Rightarrow>
               log_then_return (h_logger h)
                 \<lparr>log_message = message e, log_internalError = cause, log_url = url req,
                  log_method = Some (h_method h), log_path = h_key h\<rparr>
                 (toResponse e))
      | Inl (ThrowOther cause) \<Rightarrow>
          log_then_return (h_logger h)
            \<lparr>log_message = cause, log_internalError = cause, log_url = url req,
             log_method = None, log_path = h_key h\<rparr>
            (toResponse (InternalServerError no_overrides)))"

text \<open>
  \<open>Promise.all\<close> over the imports: the modules in order, or the rejection of one that fails.
  An import gives the module's default export when that is a class, \<open>None\<close> when it is not.
\<close>

fun Promise_all :: "(exn + 'a) list \<Rightarrow> exn + 'a list" where
  "Promise_all [] = Inr []"
| "Promise_all (Inl e # ps) = Inl e"
| "Promise_all (Inr x # ps) = (case Promise_all ps of Inl e \<Rightarrow> Inl e | Inr xs \<Rightarrow> Inr (x # xs))"

text \<open>
  The route table: from the path to the record of the handlers by method. Every path that
  \<open>readRoutes\<close> gives contains a \<open>/\<close>, so none is a name that a plain object inherits.
\<close>

type_synonym RoutesMap = "string \<rightharpoonup> (string \<rightharpoonup> BoundHandler)"

text \<open>The loop of \<open>parseRoutes\<close> over the discovered files and their imported modules.\<close>

fun parseRoutes_loop ::
  "AuthProvider option \<Rightarrow> Logger option \<Rightarrow> (Discovered \<times> ControllerClass option) list \<Rightarrow>
   RoutesMap \<Rightarrow> exn + RoutesMap" where
  "parseRoutes_loop authP logger [] routes = Inr routes"
| "parseRoutes_loop authP logger ((d, mod_default) # rest) routes =
     (case mod_default of
        None \<Rightarrow>
          Inl (ThrowOther (''Route controller '' @ path d @ ''/'' @ Method_name (http_method d)
                           @ '' must default export a class.''))
      | Some Ctor \<Rightarrow>
          let key = path d;
              meth = Method_toUpperCase (http_method d);
              h = \<lparr>h_authProvider = authP, h_logger = logger, h_Ctor = Ctor,
                   h_key = key, h_method = meth\<rparr>;
              route = nullish (routes key) Map.empty
          in
          (case route meth of
             Some existing \<Rightarrow>
               Inl (ThrowOther (''Router '' @ Method_name (http_method d) @ '' '' @ path d
                                @ '' is redefined''))
           | None \<Rightarrow>
               parseRoutes_loop authP logger rest (routes(key \<mapsto> route(meth \<mapsto> h)))))"

definition parseRoutes ::
  "(string \<Rightarrow> exn + ControllerClass option) \<Rightarrow> Discovered list \<Rightarrow> AuthProvider option \<Rightarrow>
   Logger option \<Rightarrow> exn + RoutesMap" where
  "parseRoutes import discovered authP logger =
     (case Promise_all (map (\<lambda>d. import (handler_file d)) discovered) of
        Inl e \<Rightarrow> Inl e
      | Inr imports \<Rightarrow> parseRoutes_loop authP logger (zip discovered imports) Map.empty)"

text \<open>
  \<open>getRoutes\<close>, from the files that \<open>readRoutes\<close> discovered (the scan of the directory is
  the platform's).
\<close>

definition getRoutes ::
  "(string \<Rightarrow> exn + ControllerClass option) \<Rightarrow> Discovered list \<Rightarrow> AuthProvider option \<Rightarrow>
   Logger option \<Rightarrow> exn + RoutesMap" where
  "getRoutes import discovered authP logger =
     (if length discovered = 0 then Inr Map.empty
      else parseRoutes import discovered authP logger)"

section \<open>Auxiliary notions for the statements\<close>


text \<open>Whether the route table holds a handler under a path and an upper-case method.\<close>

definition occupied :: "RoutesMap \<Rightarrow> string \<Rightarrow> string \<Rightarrow> bool" where
  "occupied routes key meth = (case routes key of None \<Rightarrow> False | Some route \<Rightarrow> route meth \<noteq> None)"

section \<open>Example controllers, requests and validators\<close>

definition ok_response :: Response where
  "ok_response = \<lparr>status = 200, body = JObj [(''ok'', JBool True)]\<rparr>"

definition example_request :: "(string \<rightharpoonup> string) option \<Rightarrow> jsval option \<Rightarrow> BunRequest" where
  "example_request ps b =
     \<lparr>url = ''http://localhost/users/1'', headers = [], req_params = ps, req_json = b\<rparr>"

definition return_ok :: "BaseController \<Rightarrow> (exn + Response) \<times> BaseController" where
  "return_ok this = (Inr ok_response, this)"

definition members_class :: ControllerClass where
  "members_class = createController return_ok
     \<lparr>validationSchema = None, c_validateUUIDs = Some [''id''],
      c_requiresAuthentication = True, c_authProvider = None\<rparr> None"

definition public_class :: ControllerClass where
  "public_class = createController return_ok
     \<lparr>validationSchema = None, c_validateUUIDs = Some [''id''],
      c_requiresAuthentication = False, c_authProvider = None\<rparr> None"

definition echo_validate :: "jsval \<Rightarrow> exn + ValidateResult" where
  "echo_validate input = Inr \<lparr>issues = None, r_value = input\<rparr>"

definition two_issues :: "Issue list" where
  "two_issues =
     [\<lparr>i_message = Some ''Required'',
       i_path = Some [Key (KString ''users''), Key (KNumber 0), PathSegment (KString ''name'')]\<rparr>,
      \<lparr>i_message = None, i_path = None\<rparr>]"

definition reject_validate :: "jsval \<Rightarrow> exn + ValidateResult" where
  "reject_validate input = Inr \<lparr>issues = Some two_issues, r_value = JUndefined\<rparr>"

definition example_args :: "StandardProps \<Rightarrow> jsval \<Rightarrow> RouteControllerProps" where
  "example_args props b =
     \<lparr>request = example_request None (Some b), ctx = \<lparr>ctx_session = JUndefined\<rparr>,
      requiresAuthentication = False, inputSchema = Some (Some props),
      validateUUIDs = None, authProvider = None\<rparr>"

definition echo_json :: "BaseController \<Rightarrow> (exn + Response) \<times> BaseController" where
  "echo_json this = (Inr \<lparr>status = 200, body = JObj [(''user'', json this)]\<rparr>, this)"



definition name_taken :: "jsval \<Rightarrow> exn + FieldError list option" where
  "name_taken validated = Inr (Some [\<lparr>field = ''username'', fe_message = ''Already taken''\<rparr>])"



definition quiet_logger :: Logger where
  "quiet_logger entry = None"


section \<open>Facts about the error classes and the adapter\<close>

lemma ValidationError_eval:
  "ValidationError ov =
     \<lparr>name = ''ValidationError'', message = nullish (o_message ov) ''Bad Request'',
      responseCode = nullish (o_responseCode ov) 400, data = nullish_value (o_data ov) JUndefined,
      fieldErrors = o_fieldErrors ov, internalError = o_internalError ov\<rparr>"
  by (simp add: ValidationError_def makeErrorClass_def)

lemma NotFoundError_eval:
  "NotFoundError ov =
     \<lparr>name = ''NotFoundError'', message = nullish (o_message ov) ''Not Found'',
      responseCode = nullish (o_responseCode ov) 404, data = nullish_value (o_data ov) JUndefined,
      fieldErrors = o_fieldErrors ov, internalError = o_internalError ov\<rparr>"
  by (simp add: NotFoundError_def makeErrorClass_def)

lemma UnauthorizedError_eval:
  "UnauthorizedError ov =
     \<lparr>name = ''UnauthorizedError'', message = nullish (o_message ov) ''Unauthorized'',
      responseCode = nullish (o_responseCode ov) 401, data = nullish_value (o_data ov) JUndefined,
      fieldErrors = o_fieldErrors ov, internalError = o_internalError ov\<rparr>"
  by (simp add: UnauthorizedError_def makeErrorClass_def)

lemma InternalServerError_eval:
  "InternalServerError ov =
     \<lparr>name = ''InternalServerError'', message = nullish (o_message ov) ''Internal Server Error'',
      responseCode = nullish (o_responseCode ov) 500, data = nullish_value (o_data ov) JUndefined,
      fieldErrors = o_fieldErrors ov, internalError = o_internalError ov\<rparr>"
  by (simp add: InternalServerError_def makeErrorClass_def)

lemmas error_evals = ValidationError_eval NotFoundError_eval UnauthorizedError_eval
  InternalServerError_eval no_overrides_def

lemma formatPath_join:
  "formatPath p =
     (case p of None \<Rightarrow> ''''
      | Some segs \<Rightarrow> join ''.'' (map (\<lambda>seg. format_key (segment_key seg)) segs))"
  by (cases p) (auto simp add: formatPath_def)

lemma format_key_cases:
  "format_key k = (case k of KNumber n \<Rightarrow> ''['' @ String_of_nat n @ '']'' | key \<Rightarrow> String_of_key key)"
  by (cases k) simp_all

lemma parseStandardSchema_issues:
  assumes "version props = 1" "validate props = Some validate_fn"
    and "validate_fn input = Inr resolved" "issues resolved = Some is"
  shows "parseStandardSchema input (Some props) =
     Inl (ThrowResponseError
       \<lparr>name = ''ValidationError'', message = ''Bad Request'', responseCode = 400, data = JUndefined,
        fieldErrors = Some (mapIssues is), internalError = None\<rparr>)"
  using assms by (simp add: parseStandardSchema_def error_evals)

lemma parseStandardSchema_value:
  assumes "version props = 1" "validate props = Some validate_fn"
    and "validate_fn input = Inr resolved" "issues resolved = None"
  shows "parseStandardSchema input (Some props) = Inr (r_value resolved)"
  using assms by (simp add: parseStandardSchema_def)

lemma validateUUID_length: "validateUUID s \<Longrightarrow> length s = 36"
  by (auto simp add: validateUUID_def uuid_pattern_def dest: list_all2_lengthD)

lemma validateUUID_example: "validateUUID ''123e4567-e89b-12d3-a456-426614174000''"
  by code_simp

lemma not_a_uuid: "\<not> validateUUID ''not-a-uuid''"
  using validateUUID_length [of "''not-a-uuid''"] by auto



section \<open>Facts about the stages\<close>

lemma respond_pending:
  "responseError this = Some e \<Longrightarrow> respond m this = toResponse e"
  by (simp add: respond_def)

lemma additionalValidation_skipped:
  "json this = JUndefined \<Longrightarrow> private_additionalValidation m this = Inr this"
  by (simp add: private_additionalValidation_def)

lemma validateUUIDs_keeps:
  "request (private_validateUUIDs this) = request this"
  "requiresAuthentication (private_validateUUIDs this) = requiresAuthentication this"
  "inputSchema (private_validateUUIDs this) = inputSchema this"
  "authProvider (private_validateUUIDs this) = authProvider this"
  "json (private_validateUUIDs this) = json this"
  by (simp_all add: private_validateUUIDs_def split: option.splits)

lemma checkAuthStatus_keeps:
  assumes "private_checkAuthStatus this = Inr this2"
  shows "request this2 = request this" and "inputSchema this2 = inputSchema this"
    and "json this2 = json this" and "params this2 = params this"
  using assms
  by (auto simp add: private_checkAuthStatus_def split: option.splits sum.splits if_splits)

lemma validateJSONInput_keeps:
  "params (private_validateJSONInput this) = params this"
  "request (private_validateJSONInput this) = request this"
  by (simp_all add: private_validateJSONInput_def split: option.splits sum.splits exn.splits)

lemma validateJSONInput_pending:
  "responseError this = Some e \<Longrightarrow> private_validateJSONInput this = this"
  by (simp add: private_validateJSONInput_def split: option.splits)

lemma additionalValidation_keeps:
  assumes "private_additionalValidation m this = Inr this2"
  shows "params this2 = params this" and "json this2 = json this"
  using assms
  by (auto simp add: private_additionalValidation_def Let_def split: option.splits sum.splits if_splits)

lemma init_keeps_params:
  assumes "init m this = Inr this'"
  shows "params this' = params (private_validateUUIDs this)"
proof -
  from assms obtain this2 where
    a: "private_checkAuthStatus (private_validateUUIDs this) = Inr this2" and
    b: "private_additionalValidation m (private_validateJSONInput this2) = Inr this'"
    by (auto simp add: init_def split: sum.splits)
  have "params this' = params (private_validateJSONInput this2)"
    using b by (rule additionalValidation_keeps)
  also have "\<dots> = params this2" by (simp add: validateJSONInput_keeps)
  also have "\<dots> = params (private_validateUUIDs this)"
    using a by (rule checkAuthStatus_keeps)
  finally show ?thesis .
qed

text \<open>
  An error pending after the authentication stage, on a controller whose \<open>json\<close> is unset, is
  the response.
\<close>

lemma invoke_pending_after_auth:
  assumes "private_checkAuthStatus (private_validateUUIDs this) = Inr this2"
    and "responseError this2 = Some e" and "json this = JUndefined"
  shows "invoke m this = toResponse e"
proof -
  have j: "json this2 = JUndefined"
    using assms(1,3) by (simp add: checkAuthStatus_keeps validateUUIDs_keeps)
  have v: "private_validateJSONInput this2 = this2"
    using assms(2) by (rule validateJSONInput_pending)
  have "init m this = Inr this2"
    using assms(1) j v by (simp add: init_def additionalValidation_skipped)
  then show ?thesis
    using assms(2) by (simp add: invoke_def respond_pending)
qed

lemma validate_keys_None_iff:
  "validate_keys ps keys acc = None \<longleftrightarrow>
     (\<exists>key\<in>set keys. case ps key of None \<Rightarrow> True | Some raw \<Rightarrow> \<not> validateUUID raw)"
proof (induction keys arbitrary: acc)
  case Nil
  then show ?case by simp
next
  case (Cons key keys)
  have "\<not> validateUUID []"
    using validateUUID_length [of "[]"] by auto
  with Cons show ?case
    by (auto split: option.splits)
qed

lemma validate_keys_Some:
  "validate_keys ps keys acc = Some v \<Longrightarrow>
     dom v = dom acc \<union> (set keys - {''__proto__''})
     \<and> (\<forall>key\<in>set keys. key \<noteq> ''__proto__'' \<longrightarrow> v key = ps key)
     \<and> (\<forall>key. key \<notin> set keys - {''__proto__''} \<longrightarrow> v key = acc key)"
proof (induction keys arbitrary: acc)
  case Nil
  then show ?case by simp
next
  case (Cons key keys)
  let ?acc = "assign_property acc key (the (ps key))"
  from Cons.prems obtain raw where
    raw: "ps key = Some raw" and
    rest: "validate_keys ps keys (assign_property acc key raw) = Some v"
    by (auto split: option.splits if_splits)
  from Cons.IH [OF rest] have
    1: "dom v = dom (assign_property acc key raw) \<union> (set keys - {''__proto__''})" and
    2: "\<forall>k\<in>set keys. k \<noteq> ''__proto__'' \<longrightarrow> v k = ps k" and
    3: "\<forall>k. k \<notin> set keys - {''__proto__''} \<longrightarrow> v k = (assign_property acc key raw) k"
    by blast+
  have a: "key \<noteq> ''__proto__'' \<longrightarrow> v key = ps key"
  proof (cases "key \<in> set keys")
    case True
    with 2 show ?thesis by blast
  next
    case False
    with 3 raw show ?thesis by (simp add: assign_property_def)
  qed
  have b: "\<forall>k. k \<notin> set (key # keys) - {''__proto__''} \<longrightarrow> v k = acc k"
    using 3 by (auto simp add: assign_property_def)
  have c: "dom v = dom acc \<union> (set (key # keys) - {''__proto__''})"
    using 1 by (auto simp add: assign_property_def)
  show ?case
    using a b c 2 by simp
qed

section \<open>Facts about the route table\<close>

lemma parseRoutes_loop_ok:
  assumes "parseRoutes_loop authP logger zs routes = Inr r"
  shows "distinct (map (\<lambda>z. (path (fst z), http_method (fst z))) zs)
    \<and> (\<forall>z\<in>set zs. \<not> occupied routes (path (fst z)) (Method_toUpperCase (http_method (fst z))))"
  using assms
proof (induction zs arbitrary: routes)
  case Nil
  then show ?case by simp
next
  case (Cons z zs)
  obtain d c where z: "z = (d, c)" by (cases z)
  from Cons.prems z obtain Ctor where c: "c = Some Ctor"
    by (cases c) auto
  let ?key = "path d" and ?meth = "Method_toUpperCase (http_method d)"
  let ?route = "nullish (routes ?key) Map.empty"
  let ?h = "\<lparr>h_authProvider = authP, h_logger = logger, h_Ctor = Ctor,
             h_key = ?key, h_method = ?meth\<rparr>"
  let ?routes' = "routes(?key \<mapsto> ?route(?meth \<mapsto> ?h))"
  from Cons.prems z c have free: "?route ?meth = None"
    by (auto simp add: Let_def split: option.splits)
  with Cons.prems z c have rest: "parseRoutes_loop authP logger zs ?routes' = Inr r"
    by (simp add: Let_def)
  have d: "distinct (map (\<lambda>z. (path (fst z), http_method (fst z))) zs)"
    using Cons.IH [OF rest] by (rule conjunct1)
  have f: "\<forall>z\<in>set zs. \<not> occupied ?routes' (path (fst z)) (Method_toUpperCase (http_method (fst z)))"
    using Cons.IH [OF rest] by (rule conjunct2)
  have here: "\<not> occupied routes ?key ?meth"
    using free by (cases "routes ?key") (simp_all add: occupied_def)
  have mono: "occupied routes k m \<Longrightarrow> occupied ?routes' k m" for k m
    by (cases "routes ?key") (auto simp add: occupied_def split: option.splits if_splits)
  have new: "occupied ?routes' ?key ?meth"
    by (simp add: occupied_def)
  have "(path d, http_method d) \<notin> set (map (\<lambda>z. (path (fst z), http_method (fst z))) zs)"
  proof
    assume "(path d, http_method d) \<in> set (map (\<lambda>z. (path (fst z), http_method (fst z))) zs)"
    then obtain z' where "z' \<in> set zs" "path (fst z') = path d" "http_method (fst z') = http_method d"
      by auto
    with f new show False by auto
  qed
  moreover have "\<forall>z\<in>set zs. \<not> occupied routes (path (fst z)) (Method_toUpperCase (http_method (fst z)))"
    using f mono by blast
  ultimately show ?case
    using d here z by simp
qed

lemma Promise_all_length:
  "Promise_all ps = Inr xs \<Longrightarrow> length xs = length ps"
proof (induction ps arbitrary: xs)
  case Nil
  then show ?case by simp
next
  case (Cons p ps)
  then show ?case
    by (cases p) (auto split: sum.splits)
qed

lemma parseRoutes_ok_distinct:
  assumes "parseRoutes imp discovered authP logger = Inr r"
  shows "distinct (map (\<lambda>d. (path d, http_method d)) discovered)"
proof -
  from assms obtain mods where
    i: "Promise_all (map (\<lambda>d. imp (handler_file d)) discovered) = Inr mods" and
    l: "parseRoutes_loop authP logger (zip discovered mods) Map.empty = Inr r"
    by (auto simp add: parseRoutes_def split: sum.splits)
  from i have len: "length mods = length discovered"
    by (simp add: Promise_all_length)
  from parseRoutes_loop_ok [OF l]
  have "distinct (map (\<lambda>z. (path (fst z), http_method (fst z))) (zip discovered mods))"
    by simp
  moreover have "map (\<lambda>z. (path (fst z), http_method (fst z))) (zip discovered mods)
               = map (\<lambda>d. (path d, http_method d)) (map fst (zip discovered mods))"
    by simp
  ultimately show ?thesis
    using len by (simp del: map_map)
qed

section \<open>The claims\<close>

subsection \<open>C1: stage order and the first error\<close>

text \<open>
  C1 says that the stages run in the order ParamValidation, Authentication, BodyValidation,
  ExtraValidation, Dispatch, and that once a stage has set a \<open>ResponseError\<close> no later stage
  replaces it, so that the response renders the first error set. \<open>init\<close> runs the stages in
  that order, and \<open>_validateJSONInput\<close>, \<open>_additionalValidation\<close> and \<open>respond\<close> keep a
  pending error; \<open>_checkAuthStatus\<close> does not look at it. For a controller that declares the
  UUID parameter \<open>id\<close> and requires authentication with no provider, a request whose \<open>id\<close>
  is \<open>not-a-uuid\<close> gets the \<open>NotFoundError\<close> (404) from ParamValidation, and Authentication
  replaces it: the response is 401.
\<close>

theorem C1_authentication_replaces_not_found:
  "responseError (private_validateUUIDs
      (construct members_class (example_request (Some [''id'' \<mapsto> ''not-a-uuid'']) None)
         \<lparr>ctx_session = JUndefined\<rparr>))
     = Some (NotFoundError no_overrides)
   \<and> toResponse (NotFoundError no_overrides)
     = Inr \<lparr>status = 404, body = JObj [(''message'', JStr ''Not Found'')]\<rparr>
   \<and> invoke (methods members_class)
      (construct members_class (example_request (Some [''id'' \<mapsto> ''not-a-uuid'']) None)
         \<lparr>ctx_session = JUndefined\<rparr>)
     = Inr \<lparr>status = 401,
            body = JObj [(''message'', JStr ''Authentication provider not configured'')]\<rparr>"
  by (simp add: members_class_def createController_def BaseController_new_def example_request_def
      private_validateUUIDs_def not_a_uuid invoke_def init_def private_checkAuthStatus_def
      private_validateJSONInput_def private_additionalValidation_def respond_def
      toResponse_def Response_json_def valid_status_def error_evals)

subsection \<open>C2: UUID parameters\<close>

text \<open>
  C2 says that a request with a declared UUID parameter missing or malformed is answered
  NotFound/404 with no field errors. As stated this fails where the request carries no
  path-parameter map at all: \<open>_validateUUIDs\<close> then returns without an error, and a
  controller that declares \<open>id\<close> answers with what user logic returns.
\<close>

theorem C2_no_parameter_map_counterexample:
  "validateUUIDs (construct public_class (example_request None None) \<lparr>ctx_session = JUndefined\<rparr>)
     = Some [''id'']
   \<and> req_params (request
        (construct public_class (example_request None None) \<lparr>ctx_session = JUndefined\<rparr>)) = None
   \<and> invoke (methods public_class)
        (construct public_class (example_request None None) \<lparr>ctx_session = JUndefined\<rparr>)
     = Inr \<lparr>status = 200, body = JObj [(''ok'', JBool True)]\<rparr>"
  by (simp add: public_class_def createController_def BaseController_new_def example_request_def
      private_validateUUIDs_def invoke_def init_def private_checkAuthStatus_def
      private_validateJSONInput_def private_additionalValidation_def respond_def
      return_ok_def ok_response_def)

text \<open>
  C2, amended. Let the controller declare the list \<open>keys\<close>. A request without a
  path-parameter map is not validated: ParamValidation sets no error and exposes no
  parameters. Let the request carry the map \<open>ps\<close>. If some declared key has no entry in
  \<open>ps\<close>, or an entry that does not match the UUID pattern (the empty string included),
  ParamValidation sets \<open>NotFoundError\<close> (404, \<open>Not Found\<close>, no data, no field errors) and
  exposes no validated parameters; and when the Authentication stage sets no error of its
  own (authentication not required and no provider, or a provider whose lookup returns, with
  a session if one is required) the response is 404 with the body \<open>{message: "Not Found"}\<close>.
  If every declared key has a matching entry, no error is set, the validated parameters have
  exactly the declared keys other than \<open>__proto__\<close> (an assignment under that name stores
  nothing), each with the request's value, and the later stages of \<open>init\<close> leave them as
  they are.
\<close>

theorem C2_uuid_parameters:
  assumes "validateUUIDs args = Some keys"
  shows
  "(req_params (request args) = None \<longrightarrow>
      private_validateUUIDs (BaseController_new args) = BaseController_new args
      \<and> responseError (private_validateUUIDs (BaseController_new args)) = None
      \<and> params (private_validateUUIDs (BaseController_new args)) = Map.empty)
   \<and> (req_params (request args) = Some ps
        \<and> (\<exists>key\<in>set keys. case ps key of None \<Rightarrow> True | Some raw \<Rightarrow> \<not> validateUUID raw) \<longrightarrow>
      private_validateUUIDs (BaseController_new args) =
        (BaseController_new args)
          \<lparr>responseError := Some
             \<lparr>name = ''NotFoundError'', message = ''Not Found'', responseCode = 404,
              data = JUndefined, fieldErrors = None, internalError = None\<rparr>,
           params := Map.empty\<rparr>
      \<and> ((authProvider args = None \<and> \<not> requiresAuthentication args)
          \<or> (\<exists>provider sess. authProvider args = Some provider
                \<and> getSession provider (headers (request args)) = Inr sess
                \<and> (requiresAuthentication args \<longrightarrow> truthy sess)) \<longrightarrow>
          invoke m (BaseController_new args) =
            Inr \<lparr>status = 404, body = JObj [(''message'', JStr ''Not Found'')]\<rparr>))
   \<and> (req_params (request args) = Some ps
        \<and> (\<forall>key\<in>set keys. case ps key of None \<Rightarrow> False | Some raw \<Rightarrow> validateUUID raw) \<longrightarrow>
      responseError (private_validateUUIDs (BaseController_new args)) = None
      \<and> dom (params (private_validateUUIDs (BaseController_new args)))
          = set keys - {''__proto__''}
      \<and> (\<forall>key\<in>set keys. key \<noteq> ''__proto__'' \<longrightarrow>
            params (private_validateUUIDs (BaseController_new args)) key = ps key)
      \<and> (\<forall>this'. init m (BaseController_new args) = Inr this' \<longrightarrow>
            params this' = params (private_validateUUIDs (BaseController_new args))))"
proof -
  let ?c = "BaseController_new args"
  let ?nf = "\<lparr>name = ''NotFoundError'', message = ''Not Found'', responseCode = 404,
              data = JUndefined, fieldErrors = None, internalError = None\<rparr>"
  have A: "private_validateUUIDs ?c = ?c
      \<and> responseError (private_validateUUIDs ?c) = None
      \<and> params (private_validateUUIDs ?c) = Map.empty"
    if "req_params (request args) = None"
    using that assms by (simp add: private_validateUUIDs_def BaseController_new_def)
  have B1: "private_validateUUIDs ?c = ?c\<lparr>responseError := Some ?nf, params := Map.empty\<rparr>"
    if ps: "req_params (request args) = Some ps"
      and bad: "\<exists>key\<in>set keys. case ps key of None \<Rightarrow> True | Some raw \<Rightarrow> \<not> validateUUID raw"
  proof -
    from bad have "validate_keys ps keys Map.empty = None"
      by (simp add: validate_keys_None_iff)
    with assms ps show ?thesis
      by (simp add: private_validateUUIDs_def BaseController_new_def error_evals)
  qed
  have B2: "invoke m ?c = Inr \<lparr>status = 404, body = JObj [(''message'', JStr ''Not Found'')]\<rparr>"
    if ps: "req_params (request args) = Some ps"
      and bad: "\<exists>key\<in>set keys. case ps key of None \<Rightarrow> True | Some raw \<Rightarrow> \<not> validateUUID raw"
      and auth: "(authProvider args = None \<and> \<not> requiresAuthentication args)
          \<or> (\<exists>provider sess. authProvider args = Some provider
                \<and> getSession provider (headers (request args)) = Inr sess
                \<and> (requiresAuthentication args \<longrightarrow> truthy sess))"
  proof -
    note u = B1 [OF ps bad]
    from auth obtain this2 where
      a: "private_checkAuthStatus (private_validateUUIDs ?c) = Inr this2" and
      e: "responseError this2 = Some ?nf"
      unfolding u
      by (auto simp add: private_checkAuthStatus_def BaseController_new_def)
    have "invoke m ?c = toResponse ?nf"
      using a e by (rule invoke_pending_after_auth) (simp add: BaseController_new_def)
    then show ?thesis
      by (simp add: toResponse_def Response_json_def valid_status_def)
  qed
  have C: "responseError (private_validateUUIDs ?c) = None
      \<and> dom (params (private_validateUUIDs ?c)) = set keys - {''__proto__''}
      \<and> (\<forall>key\<in>set keys. key \<noteq> ''__proto__'' \<longrightarrow> params (private_validateUUIDs ?c) key = ps key)
      \<and> (\<forall>this'. init m ?c = Inr this' \<longrightarrow> params this' = params (private_validateUUIDs ?c))"
    if ps: "req_params (request args) = Some ps"
      and good: "\<forall>key\<in>set keys. case ps key of None \<Rightarrow> False | Some raw \<Rightarrow> validateUUID raw"
  proof -
    have "validate_keys ps keys Map.empty \<noteq> None"
    proof
      assume "validate_keys ps keys Map.empty = None"
      then obtain key where "key \<in> set keys"
        "case ps key of None \<Rightarrow> True | Some raw \<Rightarrow> \<not> validateUUID raw"
        by (auto simp add: validate_keys_None_iff)
      with good show False
        by (cases "ps key") auto
    qed
    then obtain v where v: "validate_keys ps keys Map.empty = Some v"
      by blast
    have u: "private_validateUUIDs ?c = ?c\<lparr>params := v\<rparr>"
      using assms ps v by (simp add: private_validateUUIDs_def BaseController_new_def)
    have 1: "responseError (private_validateUUIDs ?c) = None"
      unfolding u by (simp add: BaseController_new_def)
    have 2: "dom (params (private_validateUUIDs ?c)) = set keys - {''__proto__''}"
      unfolding u using validate_keys_Some [OF v] by simp
    have 3: "\<forall>key\<in>set keys. key \<noteq> ''__proto__'' \<longrightarrow> params (private_validateUUIDs ?c) key = ps key"
      unfolding u using validate_keys_Some [OF v] by simp
    have 4: "\<forall>this'. init m ?c = Inr this' \<longrightarrow> params this' = params (private_validateUUIDs ?c)"
      by (simp add: init_keeps_params)
    from 1 2 3 4 show ?thesis by blast
  qed
  have P1: "req_params (request args) = None \<longrightarrow>
      private_validateUUIDs ?c = ?c
      \<and> responseError (private_validateUUIDs ?c) = None
      \<and> params (private_validateUUIDs ?c) = Map.empty"
    using A by (rule impI)
  have P2: "req_params (request args) = Some ps
        \<and> (\<exists>key\<in>set keys. case ps key of None \<Rightarrow> True | Some raw \<Rightarrow> \<not> validateUUID raw) \<longrightarrow>
      private_validateUUIDs ?c = ?c\<lparr>responseError := Some ?nf, params := Map.empty\<rparr>
      \<and> ((authProvider args = None \<and> \<not> requiresAuthentication args)
          \<or> (\<exists>provider sess. authProvider args = Some provider
                \<and> getSession provider (headers (request args)) = Inr sess
                \<and> (requiresAuthentication args \<longrightarrow> truthy sess)) \<longrightarrow>
          invoke m ?c = Inr \<lparr>status = 404, body = JObj [(''message'', JStr ''Not Found'')]\<rparr>)"
  proof (intro impI conjI)
    assume h: "req_params (request args) = Some ps
        \<and> (\<exists>key\<in>set keys. case ps key of None \<Rightarrow> True | Some raw \<Rightarrow> \<not> validateUUID raw)"
    from h have h1: "req_params (request args) = Some ps"
      by (rule conjunct1)
    from h have h2: "\<exists>key\<in>set keys. case ps key of None \<Rightarrow> True | Some raw \<Rightarrow> \<not> validateUUID raw"
      by (rule conjunct2)
    show "private_validateUUIDs ?c = ?c\<lparr>responseError := Some ?nf, params := Map.empty\<rparr>"
      using h1 h2 by (rule B1)
    assume auth: "(authProvider args = None \<and> \<not> requiresAuthentication args)
          \<or> (\<exists>provider sess. authProvider args = Some provider
                \<and> getSession provider (headers (request args)) = Inr sess
                \<and> (requiresAuthentication args \<longrightarrow> truthy sess))"
    show "invoke m ?c = Inr \<lparr>status = 404, body = JObj [(''message'', JStr ''Not Found'')]\<rparr>"
      using h1 h2 auth by (rule B2)
  qed
  have P3: "req_params (request args) = Some ps
        \<and> (\<forall>key\<in>set keys. case ps key of None \<Rightarrow> False | Some raw \<Rightarrow> validateUUID raw) \<longrightarrow>
      responseError (private_validateUUIDs ?c) = None
      \<and> dom (params (private_validateUUIDs ?c)) = set keys - {''__proto__''}
      \<and> (\<forall>key\<in>set keys. key \<noteq> ''__proto__'' \<longrightarrow> params (private_validateUUIDs ?c) key = ps key)
      \<and> (\<forall>this'. init m ?c = Inr this' \<longrightarrow> params this' = params (private_validateUUIDs ?c))"
  proof
    assume h: "req_params (request args) = Some ps
        \<and> (\<forall>key\<in>set keys. case ps key of None \<Rightarrow> False | Some raw \<Rightarrow> validateUUID raw)"
    from h have 1: "req_params (request args) = Some ps" by (rule conjunct1)
    from h have 2: "\<forall>key\<in>set keys. case ps key of None \<Rightarrow> False | Some raw \<Rightarrow> validateUUID raw"
      by (rule conjunct2)
    from 1 2 show "responseError (private_validateUUIDs ?c) = None
      \<and> dom (params (private_validateUUIDs ?c)) = set keys - {''__proto__''}
      \<and> (\<forall>key\<in>set keys. key \<noteq> ''__proto__'' \<longrightarrow> params (private_validateUUIDs ?c) key = ps key)
      \<and> (\<forall>this'. init m ?c = Inr this' \<longrightarrow> params this' = params (private_validateUUIDs ?c))"
      by (rule C)
  qed
  from P1 P2 P3 show ?thesis by (intro conjI)
qed

theorem C2_uuid_parameters_witness:
  "invoke (methods public_class)
     (construct public_class (example_request (Some [''id'' \<mapsto> ''not-a-uuid'']) None)
        \<lparr>ctx_session = JUndefined\<rparr>)
     = Inr \<lparr>status = 404, body = JObj [(''message'', JStr ''Not Found'')]\<rparr>
   \<and> dom (params (private_validateUUIDs
        (construct public_class
           (example_request (Some [''id'' \<mapsto> ''123e4567-e89b-12d3-a456-426614174000'']) None)
           \<lparr>ctx_session = JUndefined\<rparr>))) = {''id''}
   \<and> responseError (private_validateUUIDs
        (construct public_class (example_request None None) \<lparr>ctx_session = JUndefined\<rparr>))
     = None"
proof -
  let ?args = "\<lambda>ps. \<lparr>request = example_request ps None,
      ctx = \<lparr>ctx_session = JUndefined\<rparr>, requiresAuthentication = False, inputSchema = None,
      validateUUIDs = Some [''id''], authProvider = None\<rparr>"
  have c: "construct public_class (example_request ps None) \<lparr>ctx_session = JUndefined\<rparr>
         = BaseController_new (?args ps)" for ps
    by (simp add: public_class_def createController_def)
  have k: "validateUUIDs (?args ps) = Some [''id'']" for ps
    by simp
  have 1: "invoke (methods public_class) (BaseController_new (?args (Some [''id'' \<mapsto> ''not-a-uuid''])))
     = Inr \<lparr>status = 404, body = JObj [(''message'', JStr ''Not Found'')]\<rparr>"
    using C2_uuid_parameters [OF k, of "Some [''id'' \<mapsto> ''not-a-uuid'']"
               "[''id'' \<mapsto> ''not-a-uuid'']" "methods public_class"]
    by (simp add: example_request_def not_a_uuid)
  have 2: "dom (params (private_validateUUIDs (BaseController_new
             (?args (Some [''id'' \<mapsto> ''123e4567-e89b-12d3-a456-426614174000''])))))
           = {''id''}"
    using C2_uuid_parameters [OF k, of "Some [''id'' \<mapsto> ''123e4567-e89b-12d3-a456-426614174000'']"
               "[''id'' \<mapsto> ''123e4567-e89b-12d3-a456-426614174000'']" "methods public_class"]
    by (simp add: example_request_def validateUUID_example)
  have 3: "responseError (private_validateUUIDs (BaseController_new (?args None))) = None"
    using C2_uuid_parameters [OF k, of None]
    by (simp add: example_request_def BaseController_new_def)
  show ?thesis
    using 1 2 3 by (simp only: c)
qed

subsection \<open>C3: validator issues become field errors\<close>

text \<open>
  C3: when BodyValidation calls the validator of a declared schema (no error pending, the
  body parses) and the outcome carries \<open>N \<ge> 1\<close> issues, the adapter throws one
  \<open>ValidationError\<close> (400), the stage makes it the pending error, the response is its
  rendering (status 400, the message \<open>Bad Request\<close> and the \<open>fields\<close>), and its field errors
  are \<open>N\<close> entries in issue order; the \<open>field\<close> of the
  \<open>k\<close>-th entry is the \<open>k\<close>-th issue's path segments joined by \<open>.\<close>, a numeric segment
  written \<open>[n]\<close> and any other as \<open>String(key)\<close>, and the empty string when the path is
  absent or empty. ExtraValidation does not run then, the body value being unset.
\<close>

theorem C3_issues_become_field_errors:
  assumes "inputSchema this = Some (Some props)"
    and "version props = 1" and "validate props = Some validate_fn"
    and "responseError this = None"
    and "req_json (request this) = Some jsonUnsafe"
    and "validate_fn jsonUnsafe = Inr resolved"
    and "issues resolved = Some is" and "length is = N" and "N \<ge> 1"
  shows "parseStandardSchema jsonUnsafe (Some props) =
        Inl (ThrowResponseError
          \<lparr>name = ''ValidationError'', message = ''Bad Request'', responseCode = 400,
           data = JUndefined, fieldErrors = Some (mapIssues is), internalError = None\<rparr>)
    \<and> private_validateJSONInput this =
        this\<lparr>responseError := Some
          \<lparr>name = ''ValidationError'', message = ''Bad Request'', responseCode = 400,
           data = JUndefined, fieldErrors = Some (mapIssues is), internalError = None\<rparr>\<rparr>
    \<and> (json this = JUndefined \<longrightarrow>
          private_additionalValidation m (private_validateJSONInput this) =
            Inr (private_validateJSONInput this))
    \<and> respond m (private_validateJSONInput this) =
        toResponse
          \<lparr>name = ''ValidationError'', message = ''Bad Request'', responseCode = 400,
           data = JUndefined, fieldErrors = Some (mapIssues is), internalError = None\<rparr>
    \<and> respond m (private_validateJSONInput this) =
        Inr \<lparr>status = 400,
             body = JObj [(''message'', JStr ''Bad Request''),
                          (''fields'',
                           JStr (JSON_stringify (JArr (map FieldError_value (mapIssues is)))))]\<rparr>
    \<and> length (mapIssues is) = N
    \<and> (\<forall>k<N. field (mapIssues is ! k) =
          (case i_path (is ! k) of
             None \<Rightarrow> []
           | Some segs \<Rightarrow>
               join ''.'' (map (\<lambda>seg. case segment_key seg of
                                         KNumber n \<Rightarrow> ''['' @ String_of_nat n @ '']''
                                       | key \<Rightarrow> String_of_key key) segs)))"
proof -
  let ?E = "\<lparr>name = ''ValidationError'', message = ''Bad Request'', responseCode = 400,
             data = JUndefined, fieldErrors = Some (mapIssues is), internalError = None\<rparr>"
  have p: "parseStandardSchema jsonUnsafe (Some props) = Inl (ThrowResponseError ?E)"
    using assms by (simp add: parseStandardSchema_issues)
  have v: "private_validateJSONInput this = this\<lparr>responseError := Some ?E\<rparr>"
    using assms p by (simp add: private_validateJSONInput_def)
  have a: "json this = JUndefined \<longrightarrow>
          private_additionalValidation m (private_validateJSONInput this) =
            Inr (private_validateJSONInput this)"
    unfolding v by (simp add: additionalValidation_skipped)
  have r: "respond m (private_validateJSONInput this) = toResponse ?E"
    unfolding v by (simp add: respond_pending)
  have r': "respond m (private_validateJSONInput this) =
        Inr \<lparr>status = 400,
             body = JObj [(''message'', JStr ''Bad Request''),
                          (''fields'',
                           JStr (JSON_stringify (JArr (map FieldError_value (mapIssues is)))))]\<rparr>"
    unfolding r by (simp add: toResponse_def Response_json_def valid_status_def)
  have l: "length (mapIssues is) = N"
    using assms by (simp add: mapIssues_def)
  have f: "\<forall>k<N. field (mapIssues is ! k) =
          (case i_path (is ! k) of
             None \<Rightarrow> []
           | Some segs \<Rightarrow>
               join ''.'' (map (\<lambda>seg. case segment_key seg of
                                         KNumber n \<Rightarrow> ''['' @ String_of_nat n @ '']''
                                       | key \<Rightarrow> String_of_key key) segs))"
    using assms by (simp add: mapIssues_def formatPath_join format_key_cases split: option.splits)
  from p v a r r' l f show ?thesis by blast
qed

theorem C3_issues_become_field_errors_witness:
  "private_validateJSONInput
       (BaseController_new (example_args \<lparr>version = 1, validate = Some reject_validate\<rparr> JNull)) =
     (BaseController_new (example_args \<lparr>version = 1, validate = Some reject_validate\<rparr> JNull))
       \<lparr>responseError := Some
          \<lparr>name = ''ValidationError'', message = ''Bad Request'', responseCode = 400,
           data = JUndefined, fieldErrors = Some (mapIssues two_issues), internalError = None\<rparr>\<rparr>
     \<and> length (mapIssues two_issues) = 2
     \<and> field (mapIssues two_issues ! 0) = ''users.[0].name''
     \<and> field (mapIssues two_issues ! 1) = []"
proof -
  let ?props = "\<lparr>version = 1, validate = Some reject_validate\<rparr>"
  let ?c = "BaseController_new (example_args ?props JNull)"
  have n: "String_of_nat 0 = ''0''"
    by (simp add: String_of_nat.simps digit_def)
  have t: "length two_issues = 2"
    by (simp add: two_issues_def)
  have h: "inputSchema ?c = Some (Some ?props)" "version ?props = 1"
    "validate ?props = Some reject_validate" "responseError ?c = None"
    "req_json (request ?c) = Some JNull"
    "reject_validate JNull = Inr \<lparr>issues = Some two_issues, r_value = JUndefined\<rparr>"
    "issues \<lparr>issues = Some two_issues, r_value = JUndefined\<rparr> = Some two_issues"
    by (simp_all add: BaseController_new_def example_args_def example_request_def
        reject_validate_def)
  note c3 = C3_issues_become_field_errors [OF h t]
  have 1: "private_validateJSONInput ?c = ?c\<lparr>responseError := Some
          \<lparr>name = ''ValidationError'', message = ''Bad Request'', responseCode = 400,
           data = JUndefined, fieldErrors = Some (mapIssues two_issues), internalError = None\<rparr>\<rparr>"
    using c3 by simp
  have 2: "length (mapIssues two_issues) = 2"
    using c3 by simp
  have 3: "\<forall>k<2. field (mapIssues two_issues ! k) =
          (case i_path (two_issues ! k) of
             None \<Rightarrow> []
           | Some segs \<Rightarrow>
               join ''.'' (map (\<lambda>seg. case segment_key seg of
                                         KNumber n \<Rightarrow> ''['' @ String_of_nat n @ '']''
                                       | key \<Rightarrow> String_of_key key) segs))"
    using c3 by simp
  from 3 have 4: "field (mapIssues two_issues ! 0) = ''users.[0].name''"
    by (simp add: two_issues_def n)
  from 3 have 5: "field (mapIssues two_issues ! 1) = []"
    by (simp add: two_issues_def)
  from 1 2 4 5 show ?thesis by blast
qed

subsection \<open>C4: ExtraValidation appends\<close>

text \<open>
  C4: \<open>_additionalValidation\<close> leaves the controller as it is when no body value was
  produced. With a body value and a non-empty list \<open>errs\<close> from the extra validator, a
  pending error keeps everything but its field errors, which become the existing ones
  followed by \<open>errs\<close>; with no pending error, a new \<open>ValidationError\<close> (400, \<open>Bad Request\<close>)
  holds \<open>errs\<close>. When the extra validator returns no field errors, nothing changes.
\<close>

theorem C4_extra_validation_appends:
  "(json this = JUndefined \<longrightarrow> private_additionalValidation m this = Inr this)
   \<and> (json this \<noteq> JUndefined \<and> additionalValidation m (json this) = Inr (Some errs)
        \<and> errs \<noteq> [] \<longrightarrow>
        (case responseError this of
           Some pending \<Rightarrow>
             private_additionalValidation m this =
               Inr (this\<lparr>responseError := Some (pending\<lparr>fieldErrors :=
                 Some ((case fieldErrors pending of None \<Rightarrow> [] | Some existing \<Rightarrow> existing)
                       @ errs)\<rparr>)\<rparr>)
         | None \<Rightarrow>
             private_additionalValidation m this =
               Inr (this\<lparr>responseError := Some
                 \<lparr>name = ''ValidationError'', message = ''Bad Request'', responseCode = 400,
                  data = JUndefined, fieldErrors = Some errs, internalError = None\<rparr>\<rparr>)))
   \<and> (json this \<noteq> JUndefined
        \<and> (additionalValidation m (json this) = Inr (Some [])
             \<or> additionalValidation m (json this) = Inr None) \<longrightarrow>
        private_additionalValidation m this = Inr this)"
proof (intro conjI impI)
  assume "json this = JUndefined"
  then show "private_additionalValidation m this = Inr this"
    by (rule additionalValidation_skipped)
next
  assume a: "json this \<noteq> JUndefined \<and> additionalValidation m (json this) = Inr (Some errs)
        \<and> errs \<noteq> []"
  show "case responseError this of
           Some pending \<Rightarrow>
             private_additionalValidation m this =
               Inr (this\<lparr>responseError := Some (pending\<lparr>fieldErrors :=
                 Some ((case fieldErrors pending of None \<Rightarrow> [] | Some existing \<Rightarrow> existing)
                       @ errs)\<rparr>)\<rparr>)
         | None \<Rightarrow>
             private_additionalValidation m this =
               Inr (this\<lparr>responseError := Some
                 \<lparr>name = ''ValidationError'', message = ''Bad Request'', responseCode = 400,
                  data = JUndefined, fieldErrors = Some errs, internalError = None\<rparr>\<rparr>)"
  proof (cases "responseError this")
    case None
    with a show ?thesis
      by (simp add: private_additionalValidation_def error_evals)
  next
    case (Some pending)
    with a show ?thesis
      by (cases "fieldErrors pending") (simp_all add: private_additionalValidation_def)
  qed
next
  assume a: "json this \<noteq> JUndefined
        \<and> (additionalValidation m (json this) = Inr (Some [])
             \<or> additionalValidation m (json this) = Inr None)"
  show "private_additionalValidation m this = Inr this"
  proof (cases "responseError this")
    case None
    with a show ?thesis
      by (auto simp add: private_additionalValidation_def)
  next
    case (Some pending)
    have "this\<lparr>responseError := Some (pending\<lparr>fieldErrors := fieldErrors pending\<rparr>)\<rparr> = this"
      using Some by simp
    with a Some show ?thesis
      by (cases "fieldErrors pending") (auto simp add: private_additionalValidation_def)
  qed
qed

theorem C4_extra_validation_appends_witness:
  "private_additionalValidation \<lparr>run = return_ok, additionalValidation = name_taken\<rparr>
     ((BaseController_new (example_args \<lparr>version = 1, validate = Some echo_validate\<rparr> JNull))
        \<lparr>json := JObj [(''username'', JStr ''joel'')],
         responseError := Some (ValidationError (no_overrides
           \<lparr>o_fieldErrors := Some [\<lparr>field = ''email'', fe_message = ''Invalid email''\<rparr>]\<rparr>))\<rparr>)
   = Inr ((BaseController_new (example_args \<lparr>version = 1, validate = Some echo_validate\<rparr> JNull))
        \<lparr>json := JObj [(''username'', JStr ''joel'')],
         responseError := Some
           \<lparr>name = ''ValidationError'', message = ''Bad Request'', responseCode = 400,
            data = JUndefined,
            fieldErrors = Some [\<lparr>field = ''email'', fe_message = ''Invalid email''\<rparr>,
                                \<lparr>field = ''username'', fe_message = ''Already taken''\<rparr>],
            internalError = None\<rparr>\<rparr>)"
  using C4_extra_validation_appends [of "(BaseController_new (example_args \<lparr>version = 1, validate = Some echo_validate\<rparr> JNull))
        \<lparr>json := JObj [(''username'', JStr ''joel'')],
         responseError := Some (ValidationError (no_overrides
           \<lparr>o_fieldErrors := Some [\<lparr>field = ''email'', fe_message = ''Invalid email''\<rparr>]\<rparr>))\<rparr>"
        "\<lparr>run = return_ok, additionalValidation = name_taken\<rparr>"
        "[\<lparr>field = ''username'', fe_message = ''Already taken''\<rparr>]"]
  by (simp add: name_taken_def error_evals BaseController_new_def)

subsection \<open>C5: rendering of errors\<close>




subsection \<open>C6: authentication required\<close>

text \<open>
  C6: a new controller that requires authentication and has no provider answers 401 with
  the message \<open>Authentication provider not configured\<close>, whatever the request, the schema, the
  declared parameters and the methods are, so two requests get the same response; so does
  the handler that \<open>parseRoutes\<close> builds for a class from \<open>createController\<close> when the
  router has no provider either, and it logs nothing. With a provider whose lookup returns
  no session (a falsy value), the controller answers 401 with the message
  \<open>You must be logged in to view this content\<close>.
\<close>

theorem C6_unauthorized:
  "(requiresAuthentication args \<and> authProvider args = None \<longrightarrow>
      invoke m (BaseController_new args) =
        Inr \<lparr>status = 401,
             body = JObj [(''message'', JStr ''Authentication provider not configured'')]\<rparr>
    \<and> invoke m (BaseController_new (args\<lparr>request := req1\<rparr>)) =
      invoke m (BaseController_new (args\<lparr>request := req2\<rparr>)))
   \<and> (c_requiresAuthentication config \<and> c_authProvider config = None
        \<and> h_authProvider h = None
        \<and> h_Ctor h = createController user_logic config extra_validator \<longrightarrow>
      handler h req1 =
        (Inr \<lparr>status = 401,
              body = JObj [(''message'', JStr ''Authentication provider not configured'')]\<rparr>, [])
    \<and> handler h req1 = handler h req2)
   \<and> (requiresAuthentication args \<and> authProvider args = Some provider
        \<and> getSession provider (headers (request args)) = Inr sess \<and> \<not> truthy sess \<longrightarrow>
      invoke m (BaseController_new args) =
        Inr \<lparr>status = 401,
             body = JObj [(''message'', JStr ''You must be logged in to view this content'')]\<rparr>)"
proof -
  have A: "invoke m' (BaseController_new a) =
        Inr \<lparr>status = 401,
             body = JObj [(''message'', JStr ''Authentication provider not configured'')]\<rparr>"
    if "requiresAuthentication a" "authProvider a = None" for a m'
  proof -
    let ?c = "private_validateUUIDs (BaseController_new a)"
    let ?e = "UnauthorizedError
              (no_overrides\<lparr>o_message := Some ''Authentication provider not configured''\<rparr>)"
    have "private_checkAuthStatus ?c = Inr (?c\<lparr>responseError := Some ?e\<rparr>)"
      using that by (simp add: private_checkAuthStatus_def validateUUIDs_keeps BaseController_new_def)
    then have "invoke m' (BaseController_new a) = toResponse ?e"
      by (rule invoke_pending_after_auth) (simp_all add: BaseController_new_def)
    then show ?thesis
      by (simp add: toResponse_def Response_json_def valid_status_def error_evals)
  qed
  have H: "handler h req =
        (Inr \<lparr>status = 401,
              body = JObj [(''message'', JStr ''Authentication provider not configured'')]\<rparr>, [])"
    if "c_requiresAuthentication config" "c_authProvider config = None" "h_authProvider h = None"
       "h_Ctor h = createController user_logic config extra_validator" for req
  proof -
    let ?a = "\<lparr>request = req, ctx = \<lparr>ctx_session = JUndefined\<rparr>,
               requiresAuthentication = c_requiresAuthentication config,
               inputSchema = validationSchema config,
               validateUUIDs = c_validateUUIDs config,
               authProvider = c_authProvider config\<rparr>"
    have "handler_try h req = invoke (methods (h_Ctor h)) (BaseController_new ?a)"
      using that(3,4) by (simp add: handler_try_def createController_def)
    also have "\<dots> = Inr \<lparr>status = 401,
          body = JObj [(''message'', JStr ''Authentication provider not configured'')]\<rparr>"
      using that(1,2) by (intro A) simp_all
    finally show ?thesis
      by (simp add: handler_def)
  qed
  have B: "invoke m (BaseController_new args) =
        Inr \<lparr>status = 401,
             body = JObj [(''message'', JStr ''You must be logged in to view this content'')]\<rparr>"
    if "requiresAuthentication args" "authProvider args = Some provider"
       "getSession provider (headers (request args)) = Inr sess" "\<not> truthy sess"
  proof -
    let ?c = "private_validateUUIDs (BaseController_new args)"
    let ?e = "UnauthorizedError
              (no_overrides\<lparr>o_message := Some ''You must be logged in to view this content''\<rparr>)"
    have "private_checkAuthStatus ?c = Inr (?c\<lparr>responseError := Some ?e\<rparr>)"
      using that by (simp add: private_checkAuthStatus_def validateUUIDs_keeps BaseController_new_def)
    then have "invoke m (BaseController_new args) = toResponse ?e"
      by (rule invoke_pending_after_auth) (simp_all add: BaseController_new_def)
    then show ?thesis
      by (simp add: toResponse_def Response_json_def valid_status_def error_evals)
  qed
  show ?thesis
    using A [of args m] A [of "args\<lparr>request := req1\<rparr>" m] A [of "args\<lparr>request := req2\<rparr>" m]
      H [of req1] H [of req2] B
    by simp
qed

theorem C6_unauthorized_witness:
  "invoke (methods members_class)
     (construct members_class (example_request None None) \<lparr>ctx_session = JUndefined\<rparr>)
   = Inr \<lparr>status = 401,
          body = JObj [(''message'', JStr ''Authentication provider not configured'')]\<rparr>
   \<and> handler \<lparr>h_authProvider = None, h_logger = Some quiet_logger, h_Ctor = members_class,
               h_key = ''/members'', h_method = ''GET''\<rparr>
        (example_request (Some [''id'' \<mapsto> ''not-a-uuid'']) (Some JNull))
   = (Inr \<lparr>status = 401,
           body = JObj [(''message'', JStr ''Authentication provider not configured'')]\<rparr>, [])"
proof -
  let ?args = "\<lparr>request = example_request None None, ctx = \<lparr>ctx_session = JUndefined\<rparr>,
                 requiresAuthentication = True, inputSchema = None,
                 validateUUIDs = Some [''id''], authProvider = None\<rparr>"
  let ?config = "\<lparr>validationSchema = None, c_validateUUIDs = Some [''id''],
                   c_requiresAuthentication = True, c_authProvider = None\<rparr>"
  let ?h = "\<lparr>h_authProvider = None, h_logger = Some quiet_logger, h_Ctor = members_class,
               h_key = ''/members'', h_method = ''GET''\<rparr>"
  note c6 = C6_unauthorized [of ?args "methods members_class" _ _ ?config ?h return_ok None]
  have 1: "invoke (methods members_class) (BaseController_new ?args)
     = Inr \<lparr>status = 401,
          body = JObj [(''message'', JStr ''Authentication provider not configured'')]\<rparr>"
    using c6 by simp
  have 2: "handler ?h (example_request (Some [''id'' \<mapsto> ''not-a-uuid'']) (Some JNull))
     = (Inr \<lparr>status = 401,
           body = JObj [(''message'', JStr ''Authentication provider not configured'')]\<rparr>, [])"
    using c6 [of "example_request (Some [''id'' \<mapsto> ''not-a-uuid'']) (Some JNull)"]
    by (simp add: members_class_def)
  show ?thesis
    using 1 2 by (simp add: members_class_def createController_def)
qed

subsection \<open>C7: a schema without the adapter\<close>

text \<open>
  C7 says that a schema whose \<open>~standard\<close> property is absent, not of version 1 or without
  a \<open>validate\<close> function makes the adapter fail with a \<open>ValidationError\<close> whose message is
  \<open>Schema does not implement the expected adapter contract\<close>. The error the code throws
  carries another message.
\<close>

theorem C7_adapter_message_counterexample:
  "parseStandardSchema JNull None =
     Inl (ThrowResponseError
       \<lparr>name = ''ValidationError'', message = ''Schema does not implement StandardSchemaV1'',
        responseCode = 400, data = JUndefined, fieldErrors = None, internalError = None\<rparr>)
   \<and> ''Schema does not implement StandardSchemaV1''
     \<noteq> ''Schema does not implement the expected adapter contract''"
  by (simp add: parseStandardSchema_def error_evals)

text \<open>
  C7, amended: for every input, such a schema makes \<open>parseStandardSchema\<close> throw a
  \<open>ValidationError\<close> (400) with the message \<open>Schema does not implement StandardSchemaV1\<close>
  and no field errors; the result does not depend on the input or on \<open>validate\<close>.
\<close>

theorem C7_nonconforming_schema:
  assumes "schema = None
    \<or> (\<exists>props. schema = Some props \<and> (version props \<noteq> 1 \<or> validate props = None))"
  shows "parseStandardSchema input schema =
     Inl (ThrowResponseError
       \<lparr>name = ''ValidationError'', message = ''Schema does not implement StandardSchemaV1'',
        responseCode = 400, data = JUndefined, fieldErrors = None, internalError = None\<rparr>)"
  using assms
  by (auto simp add: parseStandardSchema_def error_evals)

theorem C7_nonconforming_schema_witness:
  "parseStandardSchema (JStr ''x'') (Some \<lparr>version = 2, validate = Some echo_validate\<rparr>) =
     Inl (ThrowResponseError
       \<lparr>name = ''ValidationError'', message = ''Schema does not implement StandardSchemaV1'',
        responseCode = 400, data = JUndefined, fieldErrors = None, internalError = None\<rparr>)"
  by (rule C7_nonconforming_schema) simp

subsection \<open>C8: the validated body reaches user logic\<close>

text \<open>
  C8: when ParamValidation and Authentication leave no error, the body parses, the schema's
  \<open>validate\<close> returns an outcome without issues and the extra validator returns no field
  errors, \<open>init\<close> ends with no pending error and with \<open>json\<close> equal to the outcome's
  \<open>value\<close>, and \<open>invoke\<close> is \<open>run\<close> on that controller (a pending error that \<open>run\<close> itself
  sets wins over its response).
\<close>

theorem C8_body_round_trip:
  assumes "private_checkAuthStatus (private_validateUUIDs this) = Inr this2"
    and "responseError this2 = None"
    and "inputSchema this = Some (Some props)"
    and "version props = 1" and "validate props = Some validate_fn"
    and "req_json (request this) = Some jsonUnsafe"
    and "validate_fn jsonUnsafe = Inr resolved" and "issues resolved = None"
    and "additionalValidation m (r_value resolved) = Inr errs"
    and "errs = None \<or> errs = Some []"
  shows "init m this = Inr (this2\<lparr>json := r_value resolved\<rparr>)
    \<and> json (this2\<lparr>json := r_value resolved\<rparr>) = r_value resolved
    \<and> invoke m this =
        (case run m (this2\<lparr>json := r_value resolved\<rparr>) of
           (Inl e, this') \<Rightarrow> Inl e
         | (Inr resp, this') \<Rightarrow>
             (case responseError this' of
                Some pending \<Rightarrow> toResponse pending
              | None \<Rightarrow> Inr resp))"
proof -
  let ?c = "this2\<lparr>json := r_value resolved\<rparr>"
  have s: "inputSchema this2 = Some (Some props)" "req_json (request this2) = Some jsonUnsafe"
    using assms(1,3,6) by (simp_all add: checkAuthStatus_keeps validateUUIDs_keeps)
  have p: "parseStandardSchema jsonUnsafe (Some props) = Inr (r_value resolved)"
    using assms by (simp add: parseStandardSchema_value)
  have v: "private_validateJSONInput this2 = ?c"
    using s p assms(2) by (simp add: private_validateJSONInput_def)
  have a: "private_additionalValidation m ?c = Inr ?c"
    using assms(2,9,10) by (auto simp add: private_additionalValidation_def)
  have i: "init m this = Inr ?c"
    using assms(1) v a by (simp add: init_def)
  have r: "invoke m this = respond m ?c"
    using i by (simp add: invoke_def)
  show ?thesis
    using i r assms(2) by (simp add: respond_def)
qed

theorem C8_body_round_trip_witness:
  "invoke \<lparr>run = echo_json, additionalValidation = (\<lambda>v. Inr (Some []))\<rparr>
     (BaseController_new (example_args \<lparr>version = 1, validate = Some echo_validate\<rparr>
        (JObj [(''username'', JStr ''joel'')])))
   = Inr \<lparr>status = 200, body = JObj [(''user'', JObj [(''username'', JStr ''joel'')])]\<rparr>"
proof -
  let ?m = "\<lparr>run = echo_json, additionalValidation = (\<lambda>v. Inr (Some []))\<rparr>"
  let ?props = "\<lparr>version = 1, validate = Some echo_validate\<rparr>"
  let ?b = "JObj [(''username'', JStr ''joel'')]"
  let ?c = "BaseController_new (example_args ?props ?b)"
  have a: "private_checkAuthStatus (private_validateUUIDs ?c) = Inr ?c"
    by (simp add: private_validateUUIDs_def private_checkAuthStatus_def
        BaseController_new_def example_args_def)
  have "invoke ?m ?c =
        (case run ?m (?c\<lparr>json := r_value \<lparr>issues = None, r_value = ?b\<rparr>\<rparr>) of
           (Inl e, this') \<Rightarrow> Inl e
         | (Inr resp, this') \<Rightarrow>
             (case responseError this' of
                Some pending \<Rightarrow> toResponse pending
              | None \<Rightarrow> Inr resp))"
    using C8_body_round_trip [OF a, of ?props echo_validate ?b "\<lparr>issues = None, r_value = ?b\<rparr>" ?m "Some []"]
    by (simp add: BaseController_new_def example_args_def example_request_def echo_validate_def)
  then show ?thesis
    by (simp add: echo_json_def BaseController_new_def)
qed

subsection \<open>C9: duplicate routes\<close>

text \<open>
  C9: when two of the discovered files have the same path and the same method,
  \<open>parseRoutes\<close> and \<open>getRoutes\<close> throw and return no route table, whatever the imports
  give.
\<close>

theorem C9_duplicate_route_fails:
  assumes "i < j" and "j < length discovered"
    and "path (discovered ! i) = path (discovered ! j)"
    and "http_method (discovered ! i) = http_method (discovered ! j)"
  shows "\<exists>e. parseRoutes imp discovered authP logger = Inl e
            \<and> getRoutes imp discovered authP logger = Inl e"
proof -
  have nd: "\<not> distinct (map (\<lambda>d. (path d, http_method d)) discovered)"
  proof
    assume dist: "distinct (map (\<lambda>d. (path d, http_method d)) discovered)"
    have "map (\<lambda>d. (path d, http_method d)) discovered ! i
        = map (\<lambda>d. (path d, http_method d)) discovered ! j"
      using assms by simp
    with dist have "i = j"
      using assms(1,2) by (simp add: nth_eq_iff_index_eq del: nth_map)
    with assms(1) show False by simp
  qed
  obtain e where e: "parseRoutes imp discovered authP logger = Inl e"
    using nd parseRoutes_ok_distinct [of imp discovered authP logger]
    by (cases "parseRoutes imp discovered authP logger") auto
  moreover have "getRoutes imp discovered authP logger = parseRoutes imp discovered authP logger"
    using assms(2) by (auto simp add: getRoutes_def)
  ultimately show ?thesis by simp
qed

theorem C9_duplicate_route_fails_witness:
  "\<exists>e. parseRoutes (\<lambda>file. Inr (Some public_class))
          [\<lparr>path = ''/items'', handler_file = ''routes/items/get.ts'', http_method = Get\<rparr>,
           \<lparr>path = ''/items'', handler_file = ''routes/items/get.js'', http_method = Get\<rparr>]
          None None = Inl e
      \<and> getRoutes (\<lambda>file. Inr (Some public_class))
          [\<lparr>path = ''/items'', handler_file = ''routes/items/get.ts'', http_method = Get\<rparr>,
           \<lparr>path = ''/items'', handler_file = ''routes/items/get.js'', http_method = Get\<rparr>]
          None None = Inl e"
  by (rule C9_duplicate_route_fails [of 0 1]) simp_all

subsection \<open>C10: failWith and a returned response\<close>



end
